theory Spec2Isabelle
  imports Complex_Main
begin

section \<open>Numbers, errors and rounding\<close>

text \<open>
  The program computes with Python floats. They are modelled as real numbers with exact
  arithmetic: the binary rounding of each single float operation is outside the model,
  the decimal rounding that the program asks for with \<^verbatim>\<open>round(x, n)\<close> is inside it.
  Every raise of the source is a value of \<open>error\<close>.
\<close>

datatype error =
    IndexError
  | KeyError string
  | ZeroDivisionError
  | ValueError string

text \<open>
  \<^verbatim>\<open>round(x, n)\<close> on a float rounds to the nearest multiple of \<open>10 ^ -n\<close>, a tie going
  to the even neighbour.
\<close>

definition round_half_even :: "real \<Rightarrow> int" where
  "round_half_even x =
     (let f = \<lfloor>x\<rfloor>; d = x - of_int f
      in if d < 1 / 2 then f
         else if 1 / 2 < d then f + 1
         else if even f then f else f + 1)"

definition py_round :: "real \<Rightarrow> nat \<Rightarrow> real" where
  "py_round x n = of_int (round_half_even (x * 10 ^ n)) / 10 ^ n"

section \<open>Forward rates (fx\_data\_fetcher.py, fx\_data\_simulator.py)\<close>

text \<open>
  \<^verbatim>\<open>
  def calculate_forward_rate(self, spot_rate, domestic_rate, foreign_rate, days):
      t = days / 365.0
      forward_rate = spot_rate * ((1 + domestic_rate * t) / (1 + foreign_rate * t))
      return round(forward_rate, 4)
  \<close>
  The division is a division of Python floats: it raises ZeroDivisionError on a zero
  divisor. FXDataFetcher and FXDataSimulator carry the same method.
\<close>

definition calculate_forward_rate :: "real \<Rightarrow> real \<Rightarrow> real \<Rightarrow> int \<Rightarrow> error + real" where
  "calculate_forward_rate spot_rate domestic_rate foreign_rate days =
     (let t = of_int days / 365
      in if 1 + foreign_rate * t = 0 then Inl ZeroDivisionError
         else Inr (py_round (spot_rate * ((1 + domestic_rate * t) / (1 + foreign_rate * t))) 4))"


section \<open>The forward curve (fx\_data\_fetcher.py, fx\_data\_simulator.py)\<close>

text \<open>
  \<^verbatim>\<open>self.interest_rates\<close> is a dict from currency code to annual rate; both classes
  set the same seven entries in \<^verbatim>\<open>__init__\<close>. The curve builder takes the table as an
  argument, so that its properties hold for every table.
\<close>

type_synonym rate_table = "string \<rightharpoonup> real"

definition interest_rates :: rate_table where
  "interest_rates =
     [''USD'' \<mapsto> 0.0450, ''EUR'' \<mapsto> 0.0300, ''GBP'' \<mapsto> 0.0475, ''JPY'' \<mapsto> 0.0010,
      ''CAD'' \<mapsto> 0.0375, ''AUD'' \<mapsto> 0.0400, ''CHF'' \<mapsto> 0.0125]"

text \<open>
  \<^verbatim>\<open>s.split(sep)\<close> for a separator of one character: the list is never empty, and
  \<open>n\<close> separators give \<open>n + 1\<close> parts. The first case of the inner \<open>case\<close> cannot
  occur.
\<close>

fun split_on :: "char \<Rightarrow> string \<Rightarrow> string list" where
  "split_on sep [] = [[]]"
| "split_on sep (c # cs) =
     (if c = sep then [] # split_on sep cs
      else (case split_on sep cs of
              [] \<Rightarrow> [[c]]
            | w # ws \<Rightarrow> (c # w) # ws))"

text \<open>
  One row of the DataFrame that \<^verbatim>\<open>build_forward_curve\<close> returns; the DataFrame is the
  list of its rows. The column \<^verbatim>\<open>Pair\<close> is the field \<open>Pair_name\<close>. A settlement date is
  a day number: the source stores its rendering \<^verbatim>\<open>%Y-%m-%d\<close>.
\<close>

record curve_point =
  Pair_name :: string
  Tenor :: string
  Days :: int
  Forward_Rate :: real
  Forward_Points :: real
  Settlement_Date :: int

definition tenors :: "(string \<times> int) list" where
  "tenors =
     [(''Spot'', 0), (''1W'', 7), (''1M'', 30), (''2M'', 60),
      (''3M'', 90), (''6M'', 180), (''9M'', 270), (''1Y'', 365)]"

text \<open>
  The rate lookups of the loop body, in the order the source makes them; a missing key
  raises KeyError.
  \<^verbatim>\<open>
  if quote_ccy == 'USD':
      domestic_rate = self.interest_rates['USD']
      foreign_rate = self.interest_rates[base_ccy]
  else:
      domestic_rate = self.interest_rates[quote_ccy]
      foreign_rate = self.interest_rates['USD']
  \<close>
\<close>

definition direction_rates :: "rate_table \<Rightarrow> string \<Rightarrow> string \<Rightarrow> error + (real \<times> real)" where
  "direction_rates rates base_ccy quote_ccy =
     (if quote_ccy = ''USD'' then
        (case rates ''USD'' of
           None \<Rightarrow> Inl (KeyError ''USD'')
         | Some domestic_rate \<Rightarrow>
             (case rates base_ccy of
                None \<Rightarrow> Inl (KeyError base_ccy)
              | Some foreign_rate \<Rightarrow> Inr (domestic_rate, foreign_rate)))
      else
        (case rates quote_ccy of
           None \<Rightarrow> Inl (KeyError quote_ccy)
         | Some domestic_rate \<Rightarrow>
             (case rates ''USD'' of
                None \<Rightarrow> Inl (KeyError ''USD'')
              | Some foreign_rate \<Rightarrow> Inr (domestic_rate, foreign_rate))))"

text \<open>
  The loop body for one tenor. \<open>today\<close> is the date of the \<^verbatim>\<open>datetime.now()\<close> that
  this iteration reads.
\<close>

definition forward_point ::
  "rate_table \<Rightarrow> string \<Rightarrow> string \<Rightarrow> string \<Rightarrow> real \<Rightarrow> int \<Rightarrow> string \<Rightarrow> int \<Rightarrow> error + curve_point" where
  "forward_point rates pair base_ccy quote_ccy spot_rate today tenor_name days =
     (case (if days = 0 then Inr (spot_rate, 0)
            else (case direction_rates rates base_ccy quote_ccy of
                    Inl e \<Rightarrow> Inl e
                  | Inr (domestic_rate, foreign_rate) \<Rightarrow>
                      (case calculate_forward_rate spot_rate domestic_rate foreign_rate days of
                         Inl e \<Rightarrow> Inl e
                       | Inr forward_rate \<Rightarrow>
                           Inr (forward_rate, py_round ((forward_rate - spot_rate) * 10000) 2))))
      of Inl e \<Rightarrow> Inl e
       | Inr (forward_rate, forward_points) \<Rightarrow>
           Inr \<lparr>Pair_name = pair, Tenor = tenor_name, Days = days,
                Forward_Rate = forward_rate, Forward_Points = forward_points,
                Settlement_Date = today + days\<rparr>)"

text \<open>
  The loop over the tenors. The source reads the clock once in every iteration:
  \<open>now i\<close> is the date of the \<open>i\<close>-th reading of one call.
\<close>

fun forward_data ::
  "rate_table \<Rightarrow> string \<Rightarrow> string \<Rightarrow> string \<Rightarrow> real \<Rightarrow> (nat \<Rightarrow> int) \<Rightarrow> nat \<Rightarrow>
   (string \<times> int) list \<Rightarrow> error + curve_point list" where
  "forward_data rates pair base_ccy quote_ccy spot_rate now i [] = Inr []"
| "forward_data rates pair base_ccy quote_ccy spot_rate now i ((tenor_name, days) # rest) =
     (case forward_point rates pair base_ccy quote_ccy spot_rate (now i) tenor_name days of
        Inl e \<Rightarrow> Inl e
      | Inr p \<Rightarrow>
          (case forward_data rates pair base_ccy quote_ccy spot_rate now (Suc i) rest of
             Inl e \<Rightarrow> Inl e
           | Inr ps \<Rightarrow> Inr (p # ps)))"

text \<open>
  \<^verbatim>\<open>base_ccy = pair.split('/')[0]; quote_ccy = pair.split('/')[1]\<close>: a pair without a
  slash raises IndexError before the loop starts.
\<close>

definition build_forward_curve ::
  "rate_table \<Rightarrow> (nat \<Rightarrow> int) \<Rightarrow> string \<Rightarrow> real \<Rightarrow> error + curve_point list" where
  "build_forward_curve rates now pair spot_rate =
     (case split_on CHR ''/'' pair of
        base_ccy # quote_ccy # _ \<Rightarrow>
          forward_data rates pair base_ccy quote_ccy spot_rate now 0 tenors
      | _ \<Rightarrow> Inl IndexError)"

section \<open>The hedging analyzer (hedging\_analyzer.py)\<close>

text \<open>
  \<^verbatim>\<open>str.lower()\<close> on the ASCII letters; other characters are left as they are
  (the lower-casing of characters outside ASCII is not modelled).
\<close>

definition letter_cases :: "(char \<times> char) list" where
  "letter_cases = zip ''ABCDEFGHIJKLMNOPQRSTUVWXYZ'' ''abcdefghijklmnopqrstuvwxyz''"

definition lower_char :: "char \<Rightarrow> char" where
  "lower_char c = (case map_of letter_cases c of None \<Rightarrow> c | Some d \<Rightarrow> d)"

definition lower :: "string \<Rightarrow> string" where
  "lower s = map lower_char s"

text \<open>
  A casing of a word, in the words of the specification: the same letters in the same
  order, each one in lower or in upper case.
\<close>

definition is_casing_of :: "string \<Rightarrow> string \<Rightarrow> bool" where
  "is_casing_of word s = list_all2 (\<lambda>w c. c = w \<or> (c, w) \<in> set letter_cases) word s"

text \<open>\<^verbatim>\<open>int(x)\<close> truncates towards zero; \<^verbatim>\<open>str\<close> of an integer is its decimal text.\<close>

definition py_int :: "real \<Rightarrow> int" where
  "py_int x = (if 0 \<le> x then \<lfloor>x\<rfloor> else \<lceil>x\<rceil>)"

fun str_nat :: "nat \<Rightarrow> string" where
  "str_nat n = (if n < 10 then [''0123456789'' ! n] else str_nat (n div 10) @ [''0123456789'' ! (n mod 10)])"

definition str_int :: "int \<Rightarrow> string" where
  "str_int i = (if i < 0 then CHR ''-'' # str_nat (nat (- i)) else str_nat (nat i))"

text \<open>
  The rates read back from a DataFrame are numpy floats. A numpy division by zero does
  not raise: it gives an infinity or a NaN, for which \<open>None\<close> stands; rounding and
  scaling keep such a value as it is.
\<close>

definition npdiv :: "real \<Rightarrow> real \<Rightarrow> real option" where
  "npdiv x y = (if y = 0 then None else Some (x / y))"

text \<open>
  The analyzer object with its attributes \<^verbatim>\<open>self.forward_curve\<close> and
  \<^verbatim>\<open>self.pair\<close>:
  \<^verbatim>\<open>
  def __init__(self, forward_curve):
      self.forward_curve = forward_curve
      self.pair = forward_curve['Pair'].iloc[0]
  \<close>
\<close>

record HedgingAnalyzer =
  self_forward_curve :: "curve_point list"
  self_pair :: string

definition HedgingAnalyzer_init :: "curve_point list \<Rightarrow> error + HedgingAnalyzer" where
  "HedgingAnalyzer_init curve =
     (case curve of
        [] \<Rightarrow> Inl IndexError
      | first # _ \<Rightarrow> Inr \<lparr>self_forward_curve = curve, self_pair = Pair_name first\<rparr>)"

text \<open>
  The dict returned by \<^verbatim>\<open>calculate_hedge_cost\<close>; its keys carry the prefix \<open>h_\<close>, since
  several of them are also columns of the curve.
\<close>

record HedgeInfo =
  h_Pair :: string
  h_Notional :: real
  h_Hedge_Ratio :: real
  h_Hedged_Amount :: real
  h_Unhedged_Amount :: real
  h_Tenor :: string
  h_Settlement_Date :: int
  h_Spot_Rate :: real
  h_Forward_Rate :: real
  h_Forward_Points :: real
  h_Premium_Discount_pct :: "real option"
  h_Locked_In_Rate :: real

text \<open>
  \<^verbatim>\<open>raise ValueError(f"Tenor {tenor} not found in forward curve")\<close> is the error that the
  specification calls TenorNotFound.
\<close>

definition TenorNotFound :: "string \<Rightarrow> error" where
  "TenorNotFound tenor = ValueError (''Tenor '' @ tenor @ '' not found in forward curve'')"

text \<open>
  \<^verbatim>\<open>self.forward_curve[self.forward_curve['Tenor'] == tenor]\<close> keeps the rows of that
  tenor, \<^verbatim>\<open>.iloc[0]\<close> takes the first and raises IndexError when there is none.
\<close>

definition calculate_hedge_cost ::
  "HedgingAnalyzer \<Rightarrow> real \<Rightarrow> string \<Rightarrow> real \<Rightarrow> error + HedgeInfo" where
  "calculate_hedge_cost self notional tenor hedge_ratio =
     (case filter (\<lambda>r. Tenor r = tenor) (self_forward_curve self) of
        [] \<Rightarrow> Inl (TenorNotFound tenor)
      | tenor_row # _ \<Rightarrow>
          (case filter (\<lambda>r. Tenor r = ''Spot'') (self_forward_curve self) of
             [] \<Rightarrow> Inl IndexError
           | spot_row # _ \<Rightarrow>
               (let forward_rate = Forward_Rate tenor_row;
                    spot_rate = Forward_Rate spot_row;
                    forward_points = Forward_Points tenor_row;
                    settlement_date = Settlement_Date tenor_row;
                    hedged_amount = notional * hedge_ratio;
                    unhedged_amount = notional * (1 - hedge_ratio);
                    premium_discount =
                      map_option (\<lambda>q. q * 100) (npdiv (forward_rate - spot_rate) spot_rate)
                in Inr \<lparr>h_Pair = self_pair self, h_Notional = notional, h_Hedge_Ratio = hedge_ratio,
                        h_Hedged_Amount = hedged_amount, h_Unhedged_Amount = unhedged_amount,
                        h_Tenor = tenor, h_Settlement_Date = settlement_date,
                        h_Spot_Rate = spot_rate, h_Forward_Rate = forward_rate,
                        h_Forward_Points = forward_points,
                        h_Premium_Discount_pct = map_option (\<lambda>p. py_round p 4) premium_discount,
                        h_Locked_In_Rate = forward_rate\<rparr>)))"




text \<open>
  The result of \<^verbatim>\<open>generate_hedge_recommendation\<close>. \<open>Forward_Premium_Discount\<close> and
  \<open>Action\<close> hold the values that the source interpolates into its f-strings; the
  rendering of these numbers as text is not modelled.
\<close>

definition first_part :: "string list \<Rightarrow> string" where
  "first_part parts = (case parts of [] \<Rightarrow> [] | p # _ \<Rightarrow> p)"

record ActionText =
  sell_amount :: real
  sell_ccy :: string
  vs_ccy :: string
  at_rate :: real
  for_tenor :: string

record RecommendationResult =
  Recommendation :: string
  Rationale :: string
  Hedge_Details :: HedgeInfo
  Forward_Premium_Discount :: "real option"
  Action :: ActionText

definition generate_hedge_recommendation ::
  "HedgingAnalyzer \<Rightarrow> real \<Rightarrow> string \<Rightarrow> string \<Rightarrow> error + RecommendationResult" where
  "generate_hedge_recommendation self notional tenor market_view =
     (case calculate_hedge_cost self notional tenor 1.0 of
        Inl e \<Rightarrow> Inl e
      | Inr hedge_info \<Rightarrow>
          (let forward = h_Forward_Rate hedge_info;
               parts = split_on CHR ''/'' (self_pair self);
               (recommended_ratio, rationale) =
                 (if lower market_view = ''bullish'' then
                    (0.50, ''With a bullish view on '' @ first_part parts @
                           '', consider a 50% hedge to maintain some upside exposure while protecting against adverse moves.'')
                  else if lower market_view = ''bearish'' then
                    (1.00, ''With a bearish view on '' @ first_part parts @
                           '', consider a 100% hedge to lock in current forward rate and eliminate downside risk.'')
                  else
                    (0.75, ''With a neutral market view, consider a 75% hedge to protect core exposure while maintaining some flexibility.''))
           in (case calculate_hedge_cost self notional tenor recommended_ratio of
                 Inl e \<Rightarrow> Inl e
               | Inr hedge_details \<Rightarrow>
                   (case parts of
                      base_ccy # quote_ccy # _ \<Rightarrow>
                        Inr \<lparr>Recommendation = str_int (py_int (recommended_ratio * 100)) @ ''% Hedge Ratio'',
                             Rationale = rationale,
                             Hedge_Details = hedge_details,
                             Forward_Premium_Discount = h_Premium_Discount_pct hedge_details,
                             Action = \<lparr>sell_amount = h_Hedged_Amount hedge_details,
                                       sell_ccy = base_ccy, vs_ccy = quote_ccy,
                                       at_rate = forward, for_tenor = tenor\<rparr>\<rparr>
                    | _ \<Rightarrow> Inl IndexError))))"

text \<open>
  The sample curve of the \<^verbatim>\<open>__main__\<close> block of hedging\_analyzer.py; its settlement
  dates read the clock once for every row.
\<close>

definition sample_curve :: "(nat \<Rightarrow> int) \<Rightarrow> curve_point list" where
  "sample_curve now =
     map (\<lambda>(i, tenor_name, days, forward_rate, forward_points).
            \<lparr>Pair_name = ''USD/CAD'', Tenor = tenor_name, Days = days,
             Forward_Rate = forward_rate, Forward_Points = forward_points,
             Settlement_Date = now i + days\<rparr>)
       [(0, ''Spot'', 0, 1.3450, 0), (1, ''1W'', 7, 1.3455, 5), (2, ''1M'', 30, 1.3468, 18),
        (3, ''2M'', 60, 1.3485, 35), (4, ''3M'', 90, 1.3502, 52), (5, ''6M'', 180, 1.3550, 100),
        (6, ''9M'', 270, 1.3598, 148), (7, ''1Y'', 365, 1.3645, 195)]"

section \<open>Clocks\<close>

text \<open>
  Two clocks for concrete runs: one whose readings all fall on the day \<open>d\<close>, and one
  on which midnight passes after the first \<open>k\<close> readings.
\<close>

definition same_day :: "int \<Rightarrow> nat \<Rightarrow> int" where
  "same_day d i = d"

definition past_midnight :: "int \<Rightarrow> nat \<Rightarrow> nat \<Rightarrow> int" where
  "past_midnight d k i = (if i < k then d else d + 1)"

section \<open>Rounding lemmas\<close>


lemma round_half_even_lower: "of_int (round_half_even x) \<ge> x - 1 / 2"
  unfolding round_half_even_def Let_def by (auto; linarith)

lemma round_half_even_upper: "of_int (round_half_even x) \<le> x + 1 / 2"
  unfolding round_half_even_def Let_def by (auto; linarith)





section \<open>Properties of the forward rate\<close>














section \<open>Properties of the forward curve\<close>

lemma split_on_no_sep: "sep \<notin> set s \<Longrightarrow> split_on sep s = [s]"
  by (induction s) auto

lemma split_on_first:
  "sep \<notin> set a \<Longrightarrow> split_on sep (a @ sep # rest) = a # split_on sep rest"
  by (induction a) auto

lemma split_on_pair:
  "sep \<notin> set base \<Longrightarrow> sep \<notin> set quote \<Longrightarrow> split_on sep (base @ sep # quote) = [base, quote]"
  by (simp add: split_on_first split_on_no_sep)

lemma split_on_nonempty: "split_on sep s \<noteq> []"
  by (induction s) (auto split: list.splits)

lemma forward_point_fields:
  assumes "forward_point rates pair base_ccy quote_ccy spot_rate today tenor_name days = Inr p"
  shows "Pair_name p = pair \<and> Tenor p = tenor_name \<and> Days p = days \<and>
         Settlement_Date p = today + days"
  using assms
  by (auto simp: forward_point_def split: if_splits sum.splits prod.splits)

lemma forward_point_spot:
  "forward_point rates pair base_ccy quote_ccy spot_rate today tenor_name 0 =
     Inr \<lparr>Pair_name = pair, Tenor = tenor_name, Days = 0, Forward_Rate = spot_rate,
          Forward_Points = 0, Settlement_Date = today\<rparr>"
  by (simp add: forward_point_def)

lemma forward_point_forward:
  assumes "forward_point rates pair base_ccy quote_ccy spot_rate today tenor_name days = Inr p"
      and "days \<noteq> 0"
  shows "\<exists>domestic_rate foreign_rate.
           direction_rates rates base_ccy quote_ccy = Inr (domestic_rate, foreign_rate) \<and>
           calculate_forward_rate spot_rate domestic_rate foreign_rate days = Inr (Forward_Rate p) \<and>
           Forward_Points p = py_round ((Forward_Rate p - spot_rate) * 10000) 2"
  using assms
  by (auto simp: forward_point_def split: sum.splits prod.splits)

lemma direction_rates_rule:
  assumes "direction_rates rates base_ccy quote_ccy = Inr (domestic_rate, foreign_rate)"
  shows "if quote_ccy = ''USD''
         then rates ''USD'' = Some domestic_rate \<and> rates base_ccy = Some foreign_rate
         else rates quote_ccy = Some domestic_rate \<and> rates ''USD'' = Some foreign_rate"
  using assms
  by (auto simp: direction_rates_def split: if_splits option.splits)

lemma forward_data_length:
  "forward_data rates pair base_ccy quote_ccy spot_rate now i ts = Inr ps \<Longrightarrow>
     length ps = length ts"
  by (induction ts arbitrary: i ps) (auto split: sum.splits)

lemma forward_data_nth:
  "forward_data rates pair base_ccy quote_ccy spot_rate now i ts = Inr ps \<Longrightarrow> j < length ts \<Longrightarrow>
     forward_point rates pair base_ccy quote_ccy spot_rate (now (i + j)) (fst (ts ! j)) (snd (ts ! j))
       = Inr (ps ! j)"
proof (induction ts arbitrary: i ps j)
  case Nil
  then show ?case by simp
next
  case (Cons td rest)
  obtain tenor_name days where td: "td = (tenor_name, days)" by (cases td)
  from Cons.prems(1) td obtain p ps' where
    p: "forward_point rates pair base_ccy quote_ccy spot_rate (now i) tenor_name days = Inr p" and
    ps': "forward_data rates pair base_ccy quote_ccy spot_rate now (Suc i) rest = Inr ps'" and
    ps: "ps = p # ps'"
    by (auto split: sum.splits)
  show ?case
  proof (cases j)
    case 0
    then show ?thesis using p ps td by simp
  next
    case (Suc k)
    then have "k < length rest" using Cons.prems(2) by simp
    from Cons.IH [OF ps' this] show ?thesis using Suc ps by simp
  qed
qed

lemma forward_data_clock:
  "(\<And>j. j < length ts \<Longrightarrow> now (i + j) = now' (i + j)) \<Longrightarrow>
     forward_data rates pair base_ccy quote_ccy spot_rate now i ts =
     forward_data rates pair base_ccy quote_ccy spot_rate now' i ts"
proof (induction ts arbitrary: i)
  case Nil
  then show ?case by simp
next
  case (Cons td rest)
  obtain tenor_name days where td: "td = (tenor_name, days)" by (cases td)
  have here: "now i = now' i" using Cons.prems [of 0] by simp
  have "\<And>j. j < length rest \<Longrightarrow> now (Suc i + j) = now' (Suc i + j)"
    using Cons.prems [of "Suc j" for j] by simp
  then have later: "forward_data rates pair base_ccy quote_ccy spot_rate now (Suc i) rest =
      forward_data rates pair base_ccy quote_ccy spot_rate now' (Suc i) rest"
    by (rule Cons.IH)
  show ?case unfolding td forward_data.simps here later by (rule refl)
qed

lemma build_forward_curve_data:
  assumes "build_forward_curve rates now pair spot_rate = Inr curve"
  shows "\<exists>base_ccy quote_ccy others.
           split_on CHR ''/'' pair = base_ccy # quote_ccy # others \<and>
           forward_data rates pair base_ccy quote_ccy spot_rate now 0 tenors = Inr curve"
  using assms by (auto simp: build_forward_curve_def split: list.splits)

lemma length_tenors: "length tenors = 8"
  by (simp add: tenors_def)

lemma build_forward_curve_nth:
  assumes "build_forward_curve rates now pair spot_rate = Inr curve"
      and "split_on CHR ''/'' pair = base_ccy # quote_ccy # others"
      and "j < 8"
  shows "forward_point rates pair base_ccy quote_ccy spot_rate (now j) (fst (tenors ! j)) (snd (tenors ! j))
           = Inr (curve ! j)"
proof -
  from assms(1,2) have
    "forward_data rates pair base_ccy quote_ccy spot_rate now 0 tenors = Inr curve"
    by (simp add: build_forward_curve_def)
  from forward_data_nth [OF this, of j] assms(3) show ?thesis
    by (simp add: length_tenors)
qed

lemma build_forward_curve_length:
  assumes "build_forward_curve rates now pair spot_rate = Inr curve"
  shows "length curve = 8"
  using build_forward_curve_data [OF assms] forward_data_length length_tenors by metis

lemma build_forward_curve_tenors:
  assumes "build_forward_curve rates now pair spot_rate = Inr curve"
  shows "map Tenor curve = map fst tenors" and "map Days curve = map snd tenors"
proof -
  from build_forward_curve_data [OF assms] obtain base_ccy quote_ccy others where
    sp: "split_on CHR ''/'' pair = base_ccy # quote_ccy # others" by blast
  have len: "length curve = length tenors"
    using build_forward_curve_length [OF assms] length_tenors by simp
  have row: "Tenor (curve ! j) = fst (tenors ! j) \<and> Days (curve ! j) = snd (tenors ! j)"
    if "j < 8" for j
    using forward_point_fields [OF build_forward_curve_nth [OF assms sp that]] by simp
  show "map Tenor curve = map fst tenors"
    using len row by (auto simp: list_eq_iff_nth_eq length_tenors)
  show "map Days curve = map snd tenors"
    using len row by (auto simp: list_eq_iff_nth_eq length_tenors)
qed

lemmas build_eval =
  build_forward_curve_def tenors_def forward_point_def direction_rates_def interest_rates_def
  calculate_forward_rate_def py_round_def round_half_even_def Let_def same_day_def past_midnight_def

lemma usd_cad_curve:
  "build_forward_curve interest_rates (same_day 0) ''USD/CAD'' 1.4320 =
     Inr [\<lparr>Pair_name = ''USD/CAD'', Tenor = ''Spot'', Days = 0, Forward_Rate = 1.4320,
            Forward_Points = 0, Settlement_Date = 0\<rparr>,
          \<lparr>Pair_name = ''USD/CAD'', Tenor = ''1W'', Days = 7, Forward_Rate = 1.4318,
            Forward_Points = -2, Settlement_Date = 7\<rparr>,
          \<lparr>Pair_name = ''USD/CAD'', Tenor = ''1M'', Days = 30, Forward_Rate = 1.4311,
            Forward_Points = -9, Settlement_Date = 30\<rparr>,
          \<lparr>Pair_name = ''USD/CAD'', Tenor = ''2M'', Days = 60, Forward_Rate = 1.4302,
            Forward_Points = -18, Settlement_Date = 60\<rparr>,
          \<lparr>Pair_name = ''USD/CAD'', Tenor = ''3M'', Days = 90, Forward_Rate = 1.4294,
            Forward_Points = -26, Settlement_Date = 90\<rparr>,
          \<lparr>Pair_name = ''USD/CAD'', Tenor = ''6M'', Days = 180, Forward_Rate = 1.4268,
            Forward_Points = -52, Settlement_Date = 180\<rparr>,
          \<lparr>Pair_name = ''USD/CAD'', Tenor = ''9M'', Days = 270, Forward_Rate = 1.4243,
            Forward_Points = -77, Settlement_Date = 270\<rparr>,
          \<lparr>Pair_name = ''USD/CAD'', Tenor = ''1Y'', Days = 365, Forward_Rate = 1.4217,
            Forward_Points = -103, Settlement_Date = 365\<rparr>]"
  by (simp add: build_eval)

lemma tenors_not_spot:
  "j < 8 \<Longrightarrow> fst (tenors ! j) \<noteq> ''Spot'' \<Longrightarrow> snd (tenors ! j) \<noteq> 0"
  by (cases j) (auto simp: tenors_def nth_Cons split: nat.splits)

text \<open>
  Claim C1. For a pair BASE/QUOTE (two codes without a slash, joined by one) whose curve
  is built, the rates are assigned by direction: with QUOTE equal to USD the domestic rate
  is the table's USD rate and the foreign rate the table's rate of BASE; otherwise the
  domestic rate is the table's rate of QUOTE and the foreign rate the USD rate. The
  forward rate of every point other than Spot is calculate\_forward\_rate at the spot
  rate, these two rates in this order, and the point's days.
\<close>

theorem direction_rule:
  assumes "build_forward_curve rates now (base_ccy @ ''/'' @ quote_ccy) spot_rate = Inr curve"
      and "CHR ''/'' \<notin> set base_ccy" and "CHR ''/'' \<notin> set quote_ccy"
  shows "\<exists>domestic_rate foreign_rate.
           (if quote_ccy = ''USD''
            then rates ''USD'' = Some domestic_rate \<and> rates base_ccy = Some foreign_rate
            else rates quote_ccy = Some domestic_rate \<and> rates ''USD'' = Some foreign_rate) \<and>
           (\<forall>p \<in> set curve. Tenor p \<noteq> ''Spot'' \<longrightarrow>
              calculate_forward_rate spot_rate domestic_rate foreign_rate (Days p) =
                Inr (Forward_Rate p))"
proof -
  let ?pair = "base_ccy @ ''/'' @ quote_ccy"
  have sp: "split_on CHR ''/'' ?pair = base_ccy # quote_ccy # []"
    using split_on_pair [OF assms(2,3)] by simp
  have row: "forward_point rates ?pair base_ccy quote_ccy spot_rate (now j)
               (fst (tenors ! j)) (snd (tenors ! j)) = Inr (curve ! j)" if "j < 8" for j
    using build_forward_curve_nth [OF assms(1) sp that] .
  have "snd (tenors ! 1) \<noteq> 0" by (simp add: tenors_def)
  from forward_point_forward [OF row [of 1] this] obtain domestic_rate foreign_rate where
    dr: "direction_rates rates base_ccy quote_ccy = Inr (domestic_rate, foreign_rate)"
    by auto
  have "calculate_forward_rate spot_rate domestic_rate foreign_rate (Days p) = Inr (Forward_Rate p)"
    if p: "p \<in> set curve" and ns: "Tenor p \<noteq> ''Spot''" for p
  proof -
    from p obtain j where j: "j < 8" and pj: "p = curve ! j"
      using build_forward_curve_length [OF assms(1)] by (auto simp: in_set_conv_nth)
    have f: "Tenor p = fst (tenors ! j) \<and> Days p = snd (tenors ! j)"
      using forward_point_fields [OF row [OF j]] pj by simp
    then have "snd (tenors ! j) \<noteq> 0" using tenors_not_spot [OF j] ns by simp
    from forward_point_forward [OF row [OF j] this] dr f pj show ?thesis by auto
  qed
  with direction_rates_rule [OF dr] show ?thesis by blast
qed

theorem direction_rule_witness:
  "build_forward_curve interest_rates (same_day 0) (''USD'' @ ''/'' @ ''CAD'') 1.4320 =
     Inr [\<lparr>Pair_name = ''USD/CAD'', Tenor = ''Spot'', Days = 0, Forward_Rate = 1.4320,
            Forward_Points = 0, Settlement_Date = 0\<rparr>,
          \<lparr>Pair_name = ''USD/CAD'', Tenor = ''1W'', Days = 7, Forward_Rate = 1.4318,
            Forward_Points = -2, Settlement_Date = 7\<rparr>,
          \<lparr>Pair_name = ''USD/CAD'', Tenor = ''1M'', Days = 30, Forward_Rate = 1.4311,
            Forward_Points = -9, Settlement_Date = 30\<rparr>,
          \<lparr>Pair_name = ''USD/CAD'', Tenor = ''2M'', Days = 60, Forward_Rate = 1.4302,
            Forward_Points = -18, Settlement_Date = 60\<rparr>,
          \<lparr>Pair_name = ''USD/CAD'', Tenor = ''3M'', Days = 90, Forward_Rate = 1.4294,
            Forward_Points = -26, Settlement_Date = 90\<rparr>,
          \<lparr>Pair_name = ''USD/CAD'', Tenor = ''6M'', Days = 180, Forward_Rate = 1.4268,
            Forward_Points = -52, Settlement_Date = 180\<rparr>,
          \<lparr>Pair_name = ''USD/CAD'', Tenor = ''9M'', Days = 270, Forward_Rate = 1.4243,
            Forward_Points = -77, Settlement_Date = 270\<rparr>,
          \<lparr>Pair_name = ''USD/CAD'', Tenor = ''1Y'', Days = 365, Forward_Rate = 1.4217,
            Forward_Points = -103, Settlement_Date = 365\<rparr>] \<and>
   CHR ''/'' \<notin> set ''USD'' \<and> CHR ''/'' \<notin> set ''CAD'' \<and>
   calculate_forward_rate 1.4320 0.0375 0.0450 180 = Inr 1.4268 \<and>
   calculate_forward_rate 1.4320 0.0375 0.0450 365 = Inr 1.4217"
proof -
  have b: "build_forward_curve interest_rates (same_day 0) (''USD'' @ ''/'' @ ''CAD'') 1.4320 =
     Inr [\<lparr>Pair_name = ''USD/CAD'', Tenor = ''Spot'', Days = 0, Forward_Rate = 1.4320,
            Forward_Points = 0, Settlement_Date = 0\<rparr>,
          \<lparr>Pair_name = ''USD/CAD'', Tenor = ''1W'', Days = 7, Forward_Rate = 1.4318,
            Forward_Points = -2, Settlement_Date = 7\<rparr>,
          \<lparr>Pair_name = ''USD/CAD'', Tenor = ''1M'', Days = 30, Forward_Rate = 1.4311,
            Forward_Points = -9, Settlement_Date = 30\<rparr>,
          \<lparr>Pair_name = ''USD/CAD'', Tenor = ''2M'', Days = 60, Forward_Rate = 1.4302,
            Forward_Points = -18, Settlement_Date = 60\<rparr>,
          \<lparr>Pair_name = ''USD/CAD'', Tenor = ''3M'', Days = 90, Forward_Rate = 1.4294,
            Forward_Points = -26, Settlement_Date = 90\<rparr>,
          \<lparr>Pair_name = ''USD/CAD'', Tenor = ''6M'', Days = 180, Forward_Rate = 1.4268,
            Forward_Points = -52, Settlement_Date = 180\<rparr>,
          \<lparr>Pair_name = ''USD/CAD'', Tenor = ''9M'', Days = 270, Forward_Rate = 1.4243,
            Forward_Points = -77, Settlement_Date = 270\<rparr>,
          \<lparr>Pair_name = ''USD/CAD'', Tenor = ''1Y'', Days = 365, Forward_Rate = 1.4217,
            Forward_Points = -103, Settlement_Date = 365\<rparr>]"
    using usd_cad_curve by simp
  have s: "CHR ''/'' \<notin> set ''USD''" "CHR ''/'' \<notin> set ''CAD''" by simp_all
  from direction_rule [OF b s] obtain domestic_rate foreign_rate where
    r: "interest_rates ''CAD'' = Some domestic_rate" "interest_rates ''USD'' = Some foreign_rate" and
    f: "calculate_forward_rate 1.4320 domestic_rate foreign_rate 180 = Inr 1.4268"
       "calculate_forward_rate 1.4320 domestic_rate foreign_rate 365 = Inr 1.4217"
    by auto
  from r have "domestic_rate = 0.0375" "foreign_rate = 0.0450"
    by (simp_all add: interest_rates_def)
  with f b s show ?thesis by simp
qed

text \<open>
  Claim C4. A curve that build\_forward\_curve returns starts with the Spot point: zero
  days, the input spot rate as its forward rate, zero forward points. No other point of
  the curve carries the tenor Spot.
\<close>

theorem spot_row:
  assumes "build_forward_curve rates now pair spot_rate = Inr curve"
  shows "\<exists>rest. curve = \<lparr>Pair_name = pair, Tenor = ''Spot'', Days = 0, Forward_Rate = spot_rate,
                          Forward_Points = 0, Settlement_Date = now 0\<rparr> # rest \<and>
                (\<forall>p \<in> set rest. Tenor p \<noteq> ''Spot'')"
proof -
  from build_forward_curve_data [OF assms] obtain base_ccy quote_ccy where
    fd: "forward_data rates pair base_ccy quote_ccy spot_rate now 0 tenors = Inr curve"
    by blast
  have tn: "map Tenor curve = map fst tenors"
    by (rule build_forward_curve_tenors [OF assms])
  from fd obtain p rest where
    p: "forward_point rates pair base_ccy quote_ccy spot_rate (now 0) ''Spot'' 0 = Inr p" and
    c: "curve = p # rest"
    by (auto simp: tenors_def split: sum.splits)
  from tn have "tl (map Tenor curve) = tl (map fst tenors)" by simp
  with c have "map Tenor rest = tl (map fst tenors)" by simp
  then have "set (map Tenor rest) = set (tl (map fst tenors))" by simp
  then have "''Spot'' \<notin> Tenor ` set rest" by (simp add: tenors_def)
  then have "\<forall>q \<in> set rest. Tenor q \<noteq> ''Spot''" by (metis imageI)
  with p c show ?thesis by (simp add: forward_point_spot)
qed

theorem spot_row_witness:
  "build_forward_curve interest_rates (same_day 0) ''EUR/USD'' 1.0545 =
     Inr (\<lparr>Pair_name = ''EUR/USD'', Tenor = ''Spot'', Days = 0, Forward_Rate = 1.0545,
            Forward_Points = 0, Settlement_Date = 0\<rparr> #
          [\<lparr>Pair_name = ''EUR/USD'', Tenor = ''1W'', Days = 7, Forward_Rate = 1.0548,
            Forward_Points = 3, Settlement_Date = 7\<rparr>,
          \<lparr>Pair_name = ''EUR/USD'', Tenor = ''1M'', Days = 30, Forward_Rate = 1.0558,
            Forward_Points = 13, Settlement_Date = 30\<rparr>,
          \<lparr>Pair_name = ''EUR/USD'', Tenor = ''2M'', Days = 60, Forward_Rate = 1.0571,
            Forward_Points = 26, Settlement_Date = 60\<rparr>,
          \<lparr>Pair_name = ''EUR/USD'', Tenor = ''3M'', Days = 90, Forward_Rate = 1.0584,
            Forward_Points = 39, Settlement_Date = 90\<rparr>,
          \<lparr>Pair_name = ''EUR/USD'', Tenor = ''6M'', Days = 180, Forward_Rate = 1.0622,
            Forward_Points = 77, Settlement_Date = 180\<rparr>,
          \<lparr>Pair_name = ''EUR/USD'', Tenor = ''9M'', Days = 270, Forward_Rate = 1.0659,
            Forward_Points = 114, Settlement_Date = 270\<rparr>,
          \<lparr>Pair_name = ''EUR/USD'', Tenor = ''1Y'', Days = 365, Forward_Rate = 1.0699,
            Forward_Points = 154, Settlement_Date = 365\<rparr>])"
proof -
  have "\<exists>curve. build_forward_curve interest_rates (same_day 0) ''EUR/USD'' 1.0545 = Inr curve"
    by (simp add: build_eval)
  then obtain curve where
    b: "build_forward_curve interest_rates (same_day 0) ''EUR/USD'' 1.0545 = Inr curve" ..
  from spot_row [OF b] b show ?thesis
    by (simp add: build_eval)
qed

text \<open>
  Claim C7, as amended. The source has no as-of date among its arguments: it reads the
  clock once for every point. Each point's settlement date is the date read for that
  point plus the point's days; the curve depends on the clock only through the eight
  readings of the call, so two calls with the same table, pair, spot rate and readings
  give the same curve; and when all eight readings fall on one date, every settlement
  date is that date plus the point's days.
\<close>

theorem settlement_dates_follow_clock:
  "(build_forward_curve rates now pair spot_rate = Inr curve \<longrightarrow>
      length curve = 8 \<and> (\<forall>j<8. Settlement_Date (curve ! j) = now j + Days (curve ! j))) \<and>
   ((\<forall>j<8. now j = now' j) \<longrightarrow>
      build_forward_curve rates now pair spot_rate = build_forward_curve rates now' pair spot_rate) \<and>
   (build_forward_curve rates now pair spot_rate = Inr curve \<and> (\<forall>j<8. now j = as_of_date) \<longrightarrow>
      (\<forall>p \<in> set curve. Settlement_Date p = as_of_date + Days p))"
proof -
  have rows: "length curve = 8 \<and> (\<forall>j<8. Settlement_Date (curve ! j) = now j + Days (curve ! j))"
    if b: "build_forward_curve rates now pair spot_rate = Inr curve"
  proof -
    from build_forward_curve_data [OF b] obtain base_ccy quote_ccy others where
      sp: "split_on CHR ''/'' pair = base_ccy # quote_ccy # others" by blast
    have "Settlement_Date (curve ! j) = now j + Days (curve ! j)" if "j < 8" for j
      using forward_point_fields [OF build_forward_curve_nth [OF b sp that]] by simp
    with build_forward_curve_length [OF b] show ?thesis by simp
  qed
  have same: "build_forward_curve rates now pair spot_rate =
              build_forward_curve rates now' pair spot_rate" if "\<forall>j<8. now j = now' j"
  proof -
    have "forward_data rates pair b q spot_rate now 0 tenors =
          forward_data rates pair b q spot_rate now' 0 tenors" for b q
      using that by (intro forward_data_clock) (simp add: length_tenors)
    then show ?thesis by (simp add: build_forward_curve_def split: list.splits)
  qed
  have fixed: "\<forall>p \<in> set curve. Settlement_Date p = as_of_date + Days p"
    if b: "build_forward_curve rates now pair spot_rate = Inr curve"
      and d: "\<forall>j<8. now j = as_of_date"
    using rows [OF b] d by (auto simp: in_set_conv_nth)
  from rows same fixed show ?thesis by blast
qed

theorem settlement_dates_follow_clock_witness:
  "map_sum id (map Settlement_Date)
     (build_forward_curve interest_rates (same_day 100) ''USD/CAD'' 1.4320) =
     Inr [100, 107, 130, 160, 190, 280, 370, 465] \<and>
   map_sum id (map Days)
     (build_forward_curve interest_rates (same_day 100) ''USD/CAD'' 1.4320) =
     Inr [0, 7, 30, 60, 90, 180, 270, 365] \<and>
   (\<exists>curve. build_forward_curve interest_rates (same_day 100) ''USD/CAD'' 1.4320 = Inr curve \<and>
      length curve = 8 \<and>
      (\<forall>j<8. same_day 100 j = 100) \<and>
      (\<forall>j<8. Settlement_Date (curve ! j) = 100 + Days (curve ! j)))"
proof -
  have "\<exists>curve. build_forward_curve interest_rates (same_day 100) ''USD/CAD'' 1.4320 = Inr curve"
    by (simp add: build_eval)
  then obtain curve where
    b: "build_forward_curve interest_rates (same_day 100) ''USD/CAD'' 1.4320 = Inr curve" ..
  have d: "\<forall>j<8. same_day 100 j = 100" by (simp add: same_day_def)
  have e: "map_sum id (map Settlement_Date)
     (build_forward_curve interest_rates (same_day 100) ''USD/CAD'' 1.4320) =
     Inr [100, 107, 130, 160, 190, 280, 370, 465] \<and>
   map_sum id (map Days)
     (build_forward_curve interest_rates (same_day 100) ''USD/CAD'' 1.4320) =
     Inr [0, 7, 30, 60, 90, 180, 270, 365]"
    by (simp add: build_eval)
  from settlement_dates_follow_clock [of interest_rates "same_day 100" "''USD/CAD''" "1.4320" curve
      "same_day 100" 100] b d
  have "length curve = 8 \<and> (\<forall>j<8. Settlement_Date (curve ! j) = 100 + Days (curve ! j))"
    by (simp add: same_day_def)
  with b d e show ?thesis by blast
qed

text \<open>
  Claim C7 as stated fails when midnight passes between the first and the second reading
  of the clock: the call starts on day 0 as the one with a steady clock does, yet the
  curves differ, and the settlement dates after Spot are day 1 plus the days, not the
  starting date plus the days.
\<close>

theorem settlement_dates_counterexample:
  "past_midnight 0 1 0 = same_day 0 0 \<and>
   map_sum id (map Days)
     (build_forward_curve interest_rates (past_midnight 0 1) ''USD/CAD'' 1.4320) =
     Inr [0, 7, 30, 60, 90, 180, 270, 365] \<and>
   map_sum id (map Settlement_Date)
     (build_forward_curve interest_rates (past_midnight 0 1) ''USD/CAD'' 1.4320) =
     Inr [0, 8, 31, 61, 91, 181, 271, 366] \<and>
   map_sum id (map Settlement_Date)
     (build_forward_curve interest_rates (same_day 0) ''USD/CAD'' 1.4320) =
     Inr [0, 7, 30, 60, 90, 180, 270, 365] \<and>
   build_forward_curve interest_rates (past_midnight 0 1) ''USD/CAD'' 1.4320 \<noteq>
   build_forward_curve interest_rates (same_day 0) ''USD/CAD'' 1.4320"
  by (simp add: build_eval)

section \<open>Properties of the hedging analyzer\<close>

lemma distinct_upper: "distinct (map fst letter_cases)"
  by (simp add: letter_cases_def)

lemma lower_char_iff:
  assumes "map_of letter_cases w = None"
  shows "lower_char c = w \<longleftrightarrow> c = w \<or> (c, w) \<in> set letter_cases"
proof (cases "map_of letter_cases c")
  case None
  then have "(c, w) \<notin> set letter_cases"
    using map_of_is_SomeI [OF distinct_upper] by fastforce
  with None show ?thesis by (auto simp: lower_char_def)
next
  case (Some d)
  then have "c \<noteq> w" using assms by auto
  moreover have "(c, w) \<in> set letter_cases \<longleftrightarrow> d = w"
    using Some map_of_is_SomeI [OF distinct_upper, of c w] map_of_SomeD [OF Some] by auto
  ultimately show ?thesis using Some by (auto simp: lower_char_def)
qed

lemma lower_eq_iff_casing:
  assumes "\<forall>w \<in> set word. map_of letter_cases w = None"
  shows "lower s = word \<longleftrightarrow> is_casing_of word s"
  using assms
proof (induction s arbitrary: word)
  case Nil
  then show ?case by (auto simp: lower_def is_casing_of_def)
next
  case (Cons c s)
  show ?case
  proof (cases word)
    case Nil
    then show ?thesis by (simp add: lower_def is_casing_of_def)
  next
    case (Cons w ws)
    with Cons.prems have w: "map_of letter_cases w = None"
      and ws: "\<forall>x \<in> set ws. map_of letter_cases x = None" by simp_all
    from Cons.IH [OF ws] lower_char_iff [OF w, of c] Cons show ?thesis
      by (auto simp: lower_def is_casing_of_def)
  qed
qed

lemma bullish_casing: "lower s = ''bullish'' \<longleftrightarrow> is_casing_of ''bullish'' s"
  by (rule lower_eq_iff_casing) (simp add: letter_cases_def)

lemma bearish_casing: "lower s = ''bearish'' \<longleftrightarrow> is_casing_of ''bearish'' s"
  by (rule lower_eq_iff_casing) (simp add: letter_cases_def)

lemma find_filter:
  "find P xs = (case filter P xs of [] \<Rightarrow> None | x # _ \<Rightarrow> Some x)"
  by (induction xs) auto

lemma filter_empty_iff_tenor:
  "filter (\<lambda>r. Tenor r = tenor) curve = [] \<longleftrightarrow> tenor \<notin> Tenor ` set curve"
  by (auto simp: filter_empty_conv)

lemma calculate_hedge_cost_found:
  assumes "find (\<lambda>r. Tenor r = tenor) (self_forward_curve self) = Some tenor_row"
      and "find (\<lambda>r. Tenor r = ''Spot'') (self_forward_curve self) = Some spot_row"
  shows "calculate_hedge_cost self notional tenor hedge_ratio =
     Inr \<lparr>h_Pair = self_pair self, h_Notional = notional, h_Hedge_Ratio = hedge_ratio,
          h_Hedged_Amount = notional * hedge_ratio,
          h_Unhedged_Amount = notional * (1 - hedge_ratio),
          h_Tenor = tenor, h_Settlement_Date = Settlement_Date tenor_row,
          h_Spot_Rate = Forward_Rate spot_row, h_Forward_Rate = Forward_Rate tenor_row,
          h_Forward_Points = Forward_Points tenor_row,
          h_Premium_Discount_pct =
            map_option (\<lambda>p. py_round p 4)
              (map_option (\<lambda>q. q * 100)
                 (npdiv (Forward_Rate tenor_row - Forward_Rate spot_row) (Forward_Rate spot_row))),
          h_Locked_In_Rate = Forward_Rate tenor_row\<rparr>"
  using assms
  by (auto simp: calculate_hedge_cost_def find_filter Let_def split: list.splits)

lemma calculate_hedge_cost_missing:
  "tenor \<notin> Tenor ` set (self_forward_curve self) \<Longrightarrow>
     calculate_hedge_cost self notional tenor hedge_ratio = Inl (TenorNotFound tenor)"
  using filter_empty_iff_tenor [of tenor "self_forward_curve self"]
  by (simp add: calculate_hedge_cost_def)

lemma find_tenor:
  "tenor \<in> Tenor ` set curve \<Longrightarrow> \<exists>row. find (\<lambda>r. Tenor r = tenor) curve = Some row"
  using filter_empty_iff_tenor [of tenor curve]
  by (auto simp: find_filter split: list.splits)

lemma hedge_cost_by_labels:
  assumes curve: "Tenor ` set (self_forward_curve self) = labels"
      and spot: "''Spot'' \<in> labels"
  shows "(calculate_hedge_cost self notional tenor hedge_ratio = Inl (TenorNotFound tenor) \<longleftrightarrow>
            tenor \<notin> labels) \<and>
         (tenor \<in> labels \<longrightarrow>
            (\<exists>info. calculate_hedge_cost self notional tenor hedge_ratio = Inr info)) \<and>
         (\<forall>e. calculate_hedge_cost self notional tenor hedge_ratio = Inl e \<longrightarrow>
            e = TenorNotFound tenor)"
proof -
  have "''Spot'' \<in> Tenor ` set (self_forward_curve self)"
    using curve spot by blast
  from find_tenor [OF this] obtain spot_row where
    sp: "find (\<lambda>r. Tenor r = ''Spot'') (self_forward_curve self) = Some spot_row" ..
  show ?thesis
  proof (cases "tenor \<in> labels")
    case True
    then have "tenor \<in> Tenor ` set (self_forward_curve self)"
      using curve by blast
    from find_tenor [OF this] obtain tenor_row where
      "find (\<lambda>r. Tenor r = tenor) (self_forward_curve self) = Some tenor_row" ..
    from calculate_hedge_cost_found [OF this sp, of notional hedge_ratio]
    obtain info where "calculate_hedge_cost self notional tenor hedge_ratio = Inr info" ..
    with True show ?thesis by simp
  next
    case False
    then have "tenor \<notin> Tenor ` set (self_forward_curve self)"
      using curve by blast
    from calculate_hedge_cost_missing [OF this, of notional hedge_ratio] False
    show ?thesis by simp
  qed
qed

text \<open>
  Claim C5. On an analyzer whose curve carries the eight fixed tenor labels,
  calculate\_hedge\_cost fails with TenorNotFound exactly when the tenor is not one of
  the eight; for each of the eight it returns a HedgeInfo record; and it fails in no
  other way, whatever the notional and the hedge ratio.
\<close>

theorem tenor_not_found_iff:
  assumes "Tenor ` set (self_forward_curve self) =
             {''Spot'', ''1W'', ''1M'', ''2M'', ''3M'', ''6M'', ''9M'', ''1Y''}"
  shows "(calculate_hedge_cost self notional tenor hedge_ratio = Inl (TenorNotFound tenor) \<longleftrightarrow>
            tenor \<notin> {''Spot'', ''1W'', ''1M'', ''2M'', ''3M'', ''6M'', ''9M'', ''1Y''}) \<and>
         (tenor \<in> {''Spot'', ''1W'', ''1M'', ''2M'', ''3M'', ''6M'', ''9M'', ''1Y''} \<longrightarrow>
            (\<exists>info. calculate_hedge_cost self notional tenor hedge_ratio = Inr info)) \<and>
         (\<forall>e. calculate_hedge_cost self notional tenor hedge_ratio = Inl e \<longrightarrow>
            e = TenorNotFound tenor)"
  by (rule hedge_cost_by_labels [OF assms]) (rule insertI1)

lemma built_curve_labels:
  assumes "build_forward_curve rates now pair spot_rate = Inr curve"
  shows "Tenor ` set curve = {''Spot'', ''1W'', ''1M'', ''2M'', ''3M'', ''6M'', ''9M'', ''1Y''}"
proof -
  have "set (map Tenor curve) = set (map fst tenors)"
    using build_forward_curve_tenors(1) [OF assms] by simp
  then show ?thesis by (simp add: tenors_def)
qed

lemma sample_analyzer:
  "HedgingAnalyzer_init (sample_curve (same_day 0)) =
     Inr \<lparr>self_forward_curve = sample_curve (same_day 0), self_pair = ''USD/CAD''\<rparr>"
  by (simp add: HedgingAnalyzer_init_def sample_curve_def)

lemma sample_tenors:
  "Tenor ` set (sample_curve now) = {''Spot'', ''1W'', ''1M'', ''2M'', ''3M'', ''6M'', ''9M'', ''1Y''}"
  by (simp add: sample_curve_def)

theorem tenor_not_found_iff_witness:
  "Tenor ` set (self_forward_curve
      \<lparr>self_forward_curve = sample_curve (same_day 0), self_pair = ''USD/CAD''\<rparr>) =
     {''Spot'', ''1W'', ''1M'', ''2M'', ''3M'', ''6M'', ''9M'', ''1Y''} \<and>
   calculate_hedge_cost \<lparr>self_forward_curve = sample_curve (same_day 0), self_pair = ''USD/CAD''\<rparr>
     5000000 ''5M'' 0.75 = Inl (TenorNotFound ''5M'') \<and>
   ''5M'' \<notin> {''Spot'', ''1W'', ''1M'', ''2M'', ''3M'', ''6M'', ''9M'', ''1Y''} \<and>
   ''6M'' \<in> {''Spot'', ''1W'', ''1M'', ''2M'', ''3M'', ''6M'', ''9M'', ''1Y''} \<and>
   (\<exists>info. calculate_hedge_cost
      \<lparr>self_forward_curve = sample_curve (same_day 0), self_pair = ''USD/CAD''\<rparr>
      5000000 ''6M'' 0.75 = Inr info)"
proof -
  let ?a = "\<lparr>self_forward_curve = sample_curve (same_day 0), self_pair = ''USD/CAD''\<rparr>"
  have t: "Tenor ` set (self_forward_curve ?a) =
     {''Spot'', ''1W'', ''1M'', ''2M'', ''3M'', ''6M'', ''9M'', ''1Y''}"
    by (simp add: sample_tenors)
  have n: "''5M'' \<notin> {''Spot'', ''1W'', ''1M'', ''2M'', ''3M'', ''6M'', ''9M'', ''1Y''}"
    by simp
  have y: "''6M'' \<in> {''Spot'', ''1W'', ''1M'', ''2M'', ''3M'', ''6M'', ''9M'', ''1Y''}"
    by simp
  from tenor_not_found_iff [OF t, of 5000000 "''5M''" "0.75"] n
  have a: "calculate_hedge_cost ?a 5000000 ''5M'' 0.75 = Inl (TenorNotFound ''5M'')"
    by blast
  from tenor_not_found_iff [OF t, of 5000000 "''6M''" "0.75"] y
  have b: "\<exists>info. calculate_hedge_cost ?a 5000000 ''6M'' 0.75 = Inr info"
    by blast
  show ?thesis
    by (intro conjI) (rule t a n y b)+
qed




lemma recommendation_text:
  "str_int (py_int (0.50 * 100)) = ''50''"
  "str_int (py_int (1.00 * 100)) = ''100''"
  "str_int (py_int (0.75 * 100)) = ''75''"
  "str_int (py_int 50) = ''50''"
  "str_int (py_int 100) = ''100''"
  "str_int (py_int 75) = ''75''"
  by (simp_all add: str_int_def py_int_def)

text \<open>
  Claim C6. For a tenor of the curve (which has a Spot point and a pair BASE/QUOTE),
  generate\_hedge\_recommendation returns a result for every market view: the ratio
  0.50 for every casing of bullish, 1.00 for every casing of bearish, and for every other
  string the ratio 0.75 with the neutral rationale. No view makes it raise.
\<close>

theorem recommendation_by_view:
  assumes "find (\<lambda>r. Tenor r = tenor) (self_forward_curve self) = Some tenor_row"
      and "find (\<lambda>r. Tenor r = ''Spot'') (self_forward_curve self) = Some spot_row"
      and "self_pair self = base_ccy @ ''/'' @ quote_ccy"
      and "CHR ''/'' \<notin> set base_ccy" and "CHR ''/'' \<notin> set quote_ccy"
  shows "\<exists>result. generate_hedge_recommendation self notional tenor market_view = Inr result \<and>
           (is_casing_of ''bullish'' market_view \<longrightarrow>
              h_Hedge_Ratio (Hedge_Details result) = 0.50 \<and>
              Recommendation result = ''50% Hedge Ratio'') \<and>
           (is_casing_of ''bearish'' market_view \<longrightarrow>
              h_Hedge_Ratio (Hedge_Details result) = 1.00 \<and>
              Recommendation result = ''100% Hedge Ratio'') \<and>
           (\<not> is_casing_of ''bullish'' market_view \<and> \<not> is_casing_of ''bearish'' market_view \<longrightarrow>
              h_Hedge_Ratio (Hedge_Details result) = 0.75 \<and>
              Recommendation result = ''75% Hedge Ratio'' \<and>
              Rationale result =
                ''With a neutral market view, consider a 75% hedge to protect core exposure while maintaining some flexibility.'')"
proof -
  have sp: "split_on CHR ''/'' (self_pair self) = [base_ccy, quote_ccy]"
    using split_on_pair [OF assms(4,5)] assms(3) by simp
  note hc = calculate_hedge_cost_found [OF assms(1,2)]
  consider (bullish) "lower market_view = ''bullish''"
    | (bearish) "lower market_view \<noteq> ''bullish''" "lower market_view = ''bearish''"
    | (neutral) "lower market_view \<noteq> ''bullish''" "lower market_view \<noteq> ''bearish''"
    by blast
  then show ?thesis
  proof cases
    case bullish
    then have "lower market_view \<noteq> ''bearish''" by simp
    with bullish show ?thesis
      unfolding bullish_casing [symmetric] bearish_casing [symmetric]
      by (simp add: generate_hedge_recommendation_def hc sp Let_def recommendation_text)
  next
    case bearish
    then show ?thesis
      unfolding bullish_casing [symmetric] bearish_casing [symmetric]
      by (simp add: generate_hedge_recommendation_def hc sp Let_def recommendation_text)
  next
    case neutral
    then show ?thesis
      unfolding bullish_casing [symmetric] bearish_casing [symmetric]
      by (simp add: generate_hedge_recommendation_def hc sp Let_def recommendation_text)
  qed
qed

theorem recommendation_by_view_witness:
  "\<exists>bull bear other.
     generate_hedge_recommendation
       \<lparr>self_forward_curve = sample_curve (same_day 0), self_pair = ''USD/CAD''\<rparr>
       5000000 ''6M'' ''BuLLish'' = Inr bull \<and>
     is_casing_of ''bullish'' ''BuLLish'' \<and>
     h_Hedge_Ratio (Hedge_Details bull) = 0.50 \<and> Recommendation bull = ''50% Hedge Ratio'' \<and>
     generate_hedge_recommendation
       \<lparr>self_forward_curve = sample_curve (same_day 0), self_pair = ''USD/CAD''\<rparr>
       5000000 ''6M'' ''BEARISH'' = Inr bear \<and>
     is_casing_of ''bearish'' ''BEARISH'' \<and>
     h_Hedge_Ratio (Hedge_Details bear) = 1.00 \<and> Recommendation bear = ''100% Hedge Ratio'' \<and>
     generate_hedge_recommendation
       \<lparr>self_forward_curve = sample_curve (same_day 0), self_pair = ''USD/CAD''\<rparr>
       5000000 ''6M'' ''unknownvalue'' = Inr other \<and>
     \<not> is_casing_of ''bullish'' ''unknownvalue'' \<and> \<not> is_casing_of ''bearish'' ''unknownvalue'' \<and>
     h_Hedge_Ratio (Hedge_Details other) = 0.75 \<and> Recommendation other = ''75% Hedge Ratio''"
proof -
  let ?a = "\<lparr>self_forward_curve = sample_curve (same_day 0), self_pair = ''USD/CAD''\<rparr>"
  have t: "find (\<lambda>r. Tenor r = ''6M'') (self_forward_curve ?a) =
             Some \<lparr>Pair_name = ''USD/CAD'', Tenor = ''6M'', Days = 180, Forward_Rate = 1.3550,
                   Forward_Points = 100, Settlement_Date = 180\<rparr>"
    by (simp add: sample_curve_def same_day_def)
  have s: "find (\<lambda>r. Tenor r = ''Spot'') (self_forward_curve ?a) =
             Some \<lparr>Pair_name = ''USD/CAD'', Tenor = ''Spot'', Days = 0, Forward_Rate = 1.3450,
                   Forward_Points = 0, Settlement_Date = 0\<rparr>"
    by (simp add: sample_curve_def same_day_def)
  have p: "self_pair ?a = ''USD'' @ ''/'' @ ''CAD''" by simp
  have c: "CHR ''/'' \<notin> set ''USD''" "CHR ''/'' \<notin> set ''CAD''" by simp_all
  have v: "is_casing_of ''bullish'' ''BuLLish''" "is_casing_of ''bearish'' ''BEARISH''"
    "\<not> is_casing_of ''bullish'' ''unknownvalue''" "\<not> is_casing_of ''bearish'' ''unknownvalue''"
    "\<not> is_casing_of ''bearish'' ''BuLLish''" "\<not> is_casing_of ''bullish'' ''BEARISH''"
    by (simp_all add: is_casing_of_def letter_cases_def)
  from recommendation_by_view [OF t s p c, of 5000000 "''BuLLish''"] v obtain bull where
    bull: "generate_hedge_recommendation ?a 5000000 ''6M'' ''BuLLish'' = Inr bull"
      "h_Hedge_Ratio (Hedge_Details bull) = 0.50" "Recommendation bull = ''50% Hedge Ratio''"
    by blast
  from recommendation_by_view [OF t s p c, of 5000000 "''BEARISH''"] v obtain bear where
    bear: "generate_hedge_recommendation ?a 5000000 ''6M'' ''BEARISH'' = Inr bear"
      "h_Hedge_Ratio (Hedge_Details bear) = 1.00" "Recommendation bear = ''100% Hedge Ratio''"
    by blast
  from recommendation_by_view [OF t s p c, of 5000000 "''unknownvalue''"] v obtain other where
    other: "generate_hedge_recommendation ?a 5000000 ''6M'' ''unknownvalue'' = Inr other"
      "h_Hedge_Ratio (Hedge_Details other) = 0.75" "Recommendation other = ''75% Hedge Ratio''"
    by blast
  from bull bear other v show ?thesis by blast
qed

end
